theory Spec2Isabelle
  imports Complex_Main
begin

section \<open>Data model of Workout.py\<close>

text \<open>
  Numbers are Python floats in the source; they are modelled as exact reals, so the
  theorems below are about which expression the code evaluates, not about rounding.
  A \<open>datetime\<close> is modelled by its count of microseconds (naive datetimes, which is
  what the parser returns for the strings of the docstrings), a \<open>timedelta\<close> by a
  signed count of microseconds. Strings are byte strings; the only strings whose
  length the code measures are ASCII.
\<close>

datatype error = ParserError | IndexError | AttributeError

type_synonym datetime = int
type_synonym timedelta = int
type_synonym point = "real \<times> real"

text \<open>\<open>timedelta.total_seconds()\<close>.\<close>

definition total_seconds :: "timedelta \<Rightarrow> real" where
  "total_seconds td = real_of_int td / 1000000"

text \<open>The attributes every workout object carries (set by \<open>Workout.__init__\<close>).\<close>

record workout =
  start :: datetime
  endt :: datetime
  icon :: string
  kind :: string
  calories :: "real option"

text \<open>
  An object is tagged with its class. A \<open>RunWorkout\<close> adds \<open>elev\<close> and
  \<open>route_gps_points\<close> (\<open>None\<close> when absent), a \<open>SwimWorkout\<close> adds \<open>pace\<close>.
\<close>

datatype obj =
    Workout workout
  | RunWorkout workout real "point list option"
  | SwimWorkout workout real

datatype cls = WorkoutT | RunWorkoutT | SwimWorkoutT

fun type_of :: "obj \<Rightarrow> cls" where
  "type_of (Workout w) = WorkoutT"
| "type_of (RunWorkout w e r) = RunWorkoutT"
| "type_of (SwimWorkout w p) = SwimWorkoutT"

fun base :: "obj \<Rightarrow> workout" where
  "base (Workout w) = w"
| "base (RunWorkout w e r) = w"
| "base (SwimWorkout w p) = w"

fun map_base :: "(workout \<Rightarrow> workout) \<Rightarrow> obj \<Rightarrow> obj" where
  "map_base f (Workout w) = Workout (f w)"
| "map_base f (RunWorkout w e r) = RunWorkout (f w) e r"
| "map_base f (SwimWorkout w p) = SwimWorkout (f w) p"

text \<open>Reading an attribute that only one subclass defines; \<open>None\<close> is "no such attribute".\<close>

fun elev_attr :: "obj \<Rightarrow> real option" where
  "elev_attr (RunWorkout w e r) = Some e"
| "elev_attr _ = None"

fun route_attr :: "obj \<Rightarrow> point list option option" where
  "route_attr (RunWorkout w e r) = Some r"
| "route_attr _ = None"

fun pace_attr :: "obj \<Rightarrow> real option" where
  "pace_attr (SwimWorkout w p) = Some p"
| "pace_attr _ = None"

subsection \<open>Class constants\<close>

definition Workout_cal_per_hr :: real where
  "Workout_cal_per_hr = 200"

definition RunWorkout_cals_per_km :: real where
  "RunWorkout_cals_per_km = 100"

definition SwimWorkout_cal_per_hr :: real where
  "SwimWorkout_cal_per_hr = 400"

text \<open>The icons are given by their UTF-8 bytes.\<close>

definition Workout_icon :: string where
  "Workout_icon = [CHR 0xF0, CHR 0x9F, CHR 0x98, CHR 0x93]"

definition RunWorkout_icon :: string where
  "RunWorkout_icon = [CHR 0xF0, CHR 0x9F, CHR 0x8F, CHR 0x83, CHR 0xF0, CHR 0x9F, CHR 0x8F, CHR 0xBD,
     CHR 0xE2, CHR 0x80, CHR 0x8D]"

definition SwimWorkout_icon :: string where
  "SwimWorkout_icon = [CHR 0xF0, CHR 0x9F, CHR 0x8F, CHR 0x8A, CHR 0xE2, CHR 0x80, CHR 0x8D]"

section \<open>Calories\<close>

text \<open>\<open>Workout.get_duration\<close>: \<open>self.end - self.start\<close>.\<close>

definition get_duration :: "workout \<Rightarrow> timedelta" where
  "get_duration w = endt w - start w"

text \<open>\<open>Workout.get_calories\<close>.\<close>

definition Workout_get_calories :: "workout \<Rightarrow> real" where
  "Workout_get_calories w =
     (case calories w of
        None \<Rightarrow> Workout_cal_per_hr * total_seconds (endt w - start w) / 3600
      | Some c \<Rightarrow> c)"

text \<open>
  The loop of \<open>RunWorkout.get_calories\<close>: \<open>for p in route[1:]: dist += gpsDistance(lastP, p);
  lastP = p\<close>. The distance function \<open>gpsDistance\<close> comes from a helper module that is
  not part of the sources; it is a parameter.
\<close>

fun route_loop :: "(point \<Rightarrow> point \<Rightarrow> real) \<Rightarrow> real \<Rightarrow> point \<Rightarrow> point list \<Rightarrow> real" where
  "route_loop gpsDistance dist_km lastP [] = dist_km"
| "route_loop gpsDistance dist_km lastP (p # ps) =
     route_loop gpsDistance (dist_km + gpsDistance lastP p) p ps"

text \<open>
  \<open>RunWorkout.get_calories\<close>. \<open>self.route_gps_points[0]\<close> raises \<open>IndexError\<close> on an
  empty list.
\<close>

definition RunWorkout_get_calories ::
    "(point \<Rightarrow> point \<Rightarrow> real) \<Rightarrow> workout \<Rightarrow> point list option \<Rightarrow> error + real" where
  "RunWorkout_get_calories gpsDistance w route =
     (case route of
        Some pts \<Rightarrow>
          (case pts of
             [] \<Rightarrow> Inl IndexError
           | p0 # rest \<Rightarrow> Inr (route_loop gpsDistance 0 p0 rest * RunWorkout_cals_per_km))
      | None \<Rightarrow> Inr (Workout_get_calories w))"

text \<open>\<open>SwimWorkout.get_calories\<close>.\<close>

definition SwimWorkout_get_calories :: "workout \<Rightarrow> real" where
  "SwimWorkout_get_calories w =
     (case calories w of
        None \<Rightarrow> SwimWorkout_cal_per_hr * total_seconds (endt w - start w) / 3600
      | Some c \<Rightarrow> c)"

text \<open>\<open>o.get_calories()\<close>, dispatched on the class of the object.\<close>

fun get_calories :: "(point \<Rightarrow> point \<Rightarrow> real) \<Rightarrow> obj \<Rightarrow> error + real" where
  "get_calories gpsDistance (Workout w) = Inr (Workout_get_calories w)"
| "get_calories gpsDistance (RunWorkout w e r) = RunWorkout_get_calories gpsDistance w r"
| "get_calories gpsDistance (SwimWorkout w p) = Inr (SwimWorkout_get_calories w)"

section \<open>Equality\<close>

text \<open>
  \<open>Workout.__eq__\<close>. Python's \<open>and\<close> stops at the first false conjunct, so
  \<open>get_calories\<close> is only called when the class, \<open>start\<close>, \<open>end\<close> and \<open>kind\<close>
  agree; an exception raised by either call leaves \<open>__eq__\<close>.
\<close>

definition Workout_eq :: "(point \<Rightarrow> point \<Rightarrow> real) \<Rightarrow> obj \<Rightarrow> obj \<Rightarrow> error + bool" where
  "Workout_eq gpsDistance self other =
     (if type_of self \<noteq> type_of other then Inr False
      else if start (base self) \<noteq> start (base other) then Inr False
      else if endt (base self) \<noteq> endt (base other) then Inr False
      else if kind (base self) \<noteq> kind (base other) then Inr False
      else (case get_calories gpsDistance self of
              Inl err \<Rightarrow> Inl err
            | Inr a \<Rightarrow>
                (case get_calories gpsDistance other of
                   Inl err \<Rightarrow> Inl err
                 | Inr b \<Rightarrow> Inr (a = b))))"

text \<open>\<open>RunWorkout.__eq__\<close>: \<open>super().__eq__(other) and self.elev == other.elev\<close>.\<close>

definition RunWorkout_eq :: "(point \<Rightarrow> point \<Rightarrow> real) \<Rightarrow> obj \<Rightarrow> obj \<Rightarrow> error + bool" where
  "RunWorkout_eq gpsDistance self other =
     (case Workout_eq gpsDistance self other of
        Inl err \<Rightarrow> Inl err
      | Inr False \<Rightarrow> Inr False
      | Inr True \<Rightarrow>
          (case elev_attr self of
             None \<Rightarrow> Inl AttributeError
           | Some a \<Rightarrow>
               (case elev_attr other of
                  None \<Rightarrow> Inl AttributeError
                | Some b \<Rightarrow> Inr (a = b))))"

text \<open>\<open>self == other\<close>: only \<open>RunWorkout\<close> overrides \<open>__eq__\<close>.\<close>

fun py_eq :: "(point \<Rightarrow> point \<Rightarrow> real) \<Rightarrow> obj \<Rightarrow> obj \<Rightarrow> error + bool" where
  "py_eq gpsDistance (Workout w) other = Workout_eq gpsDistance (Workout w) other"
| "py_eq gpsDistance (RunWorkout w e r) other = RunWorkout_eq gpsDistance (RunWorkout w e r) other"
| "py_eq gpsDistance (SwimWorkout w p) other = Workout_eq gpsDistance (SwimWorkout w p) other"

section \<open>Construction and setters\<close>

text \<open>
  \<open>parser.parse\<close> of dateutil is a parameter: \<open>None\<close> stands for the exception it
  raises on a string it cannot read. \<open>Workout.__init__\<close> parses \<open>start\<close>, then \<open>end\<close>.
\<close>

definition Workout_init ::
    "(string \<Rightarrow> datetime option) \<Rightarrow> string \<Rightarrow> string \<Rightarrow> real option \<Rightarrow> error + workout" where
  "Workout_init parse start_str end_str cals =
     (case parse start_str of
        None \<Rightarrow> Inl ParserError
      | Some s \<Rightarrow>
          (case parse end_str of
             None \<Rightarrow> Inl ParserError
           | Some e \<Rightarrow>
               Inr \<lparr>start = s, endt = e, icon = Workout_icon, kind = ''Workout'',
                    calories = cals\<rparr>))"

definition new_Workout ::
    "(string \<Rightarrow> datetime option) \<Rightarrow> string \<Rightarrow> string \<Rightarrow> real option \<Rightarrow> error + obj" where
  "new_Workout parse start_str end_str cals =
     (case Workout_init parse start_str end_str cals of
        Inl err \<Rightarrow> Inl err
      | Inr w \<Rightarrow> Inr (Workout w))"

definition new_RunWorkout ::
    "(string \<Rightarrow> datetime option) \<Rightarrow> string \<Rightarrow> string \<Rightarrow> real \<Rightarrow> real option \<Rightarrow>
       point list option \<Rightarrow> error + obj" where
  "new_RunWorkout parse start_str end_str elev cals route_gps_points =
     (case Workout_init parse start_str end_str cals of
        Inl err \<Rightarrow> Inl err
      | Inr w \<Rightarrow>
          Inr (RunWorkout (w\<lparr>icon := RunWorkout_icon, kind := ''Running''\<rparr>) elev
                 route_gps_points))"

definition new_SwimWorkout ::
    "(string \<Rightarrow> datetime option) \<Rightarrow> string \<Rightarrow> string \<Rightarrow> real \<Rightarrow> real option \<Rightarrow> error + obj" where
  "new_SwimWorkout parse start_str end_str pace cals =
     (case Workout_init parse start_str end_str cals of
        Inl err \<Rightarrow> Inl err
      | Inr w \<Rightarrow> Inr (SwimWorkout (w\<lparr>icon := SwimWorkout_icon, kind := ''Swimming''\<rparr>) pace))"

text \<open>
  The setters return the outcome of the call together with the object as it is after
  the call: an exception does not discard the object.
\<close>

definition set_calories :: "obj \<Rightarrow> real option \<Rightarrow> (error + unit) \<times> obj" where
  "set_calories self cals = (Inr (), map_base (\<lambda>w. w\<lparr>calories := cals\<rparr>) self)"

definition set_start ::
    "(string \<Rightarrow> datetime option) \<Rightarrow> obj \<Rightarrow> string \<Rightarrow> (error + unit) \<times> obj" where
  "set_start parse self start_str =
     (case parse start_str of
        None \<Rightarrow> (Inl ParserError, self)
      | Some t \<Rightarrow> (Inr (), map_base (\<lambda>w. w\<lparr>start := t\<rparr>) self))"

definition set_end ::
    "(string \<Rightarrow> datetime option) \<Rightarrow> obj \<Rightarrow> string \<Rightarrow> (error + unit) \<times> obj" where
  "set_end parse self end_str =
     (case parse end_str of
        None \<Rightarrow> (Inl ParserError, self)
      | Some t \<Rightarrow> (Inr (), map_base (\<lambda>w. w\<lparr>endt := t\<rparr>) self))"

text \<open>\<open>set_elev\<close> and \<open>get_elev\<close> exist on \<open>RunWorkout\<close> only.\<close>

fun set_elev :: "obj \<Rightarrow> real \<Rightarrow> (error + unit) \<times> obj" where
  "set_elev (RunWorkout w e r) e' = (Inr (), RunWorkout w e' r)"
| "set_elev self e' = (Inl AttributeError, self)"

definition get_elev :: "obj \<Rightarrow> error + real" where
  "get_elev self = (case elev_attr self of None \<Rightarrow> Inl AttributeError | Some e \<Rightarrow> Inr e)"

definition get_pace :: "obj \<Rightarrow> error + real" where
  "get_pace self = (case pace_attr self of None \<Rightarrow> Inl AttributeError | Some p \<Rightarrow> Inr p)"

section \<open>Functions on collections\<close>

fun total_calories_loop :: "(point \<Rightarrow> point \<Rightarrow> real) \<Rightarrow> real \<Rightarrow> obj list \<Rightarrow> error + real" where
  "total_calories_loop gpsDistance cals [] = Inr cals"
| "total_calories_loop gpsDistance cals (w # ws) =
     (case get_calories gpsDistance w of
        Inl err \<Rightarrow> Inl err
      | Inr c \<Rightarrow> total_calories_loop gpsDistance (cals + c) ws)"

definition total_calories :: "(point \<Rightarrow> point \<Rightarrow> real) \<Rightarrow> obj list \<Rightarrow> error + real" where
  "total_calories gpsDistance workouts = total_calories_loop gpsDistance 0 workouts"

fun total_elevation_loop :: "real \<Rightarrow> obj list \<Rightarrow> error + real" where
  "total_elevation_loop elev [] = Inr elev"
| "total_elevation_loop elev (w # ws) =
     (case get_elev w of
        Inl err \<Rightarrow> Inl err
      | Inr e \<Rightarrow> total_elevation_loop (elev + e) ws)"

definition total_elevation :: "obj list \<Rightarrow> error + real" where
  "total_elevation run_workouts = total_elevation_loop 0 run_workouts"

fun total_elapsed_time_loop ::
    "(string \<Rightarrow> datetime option) \<Rightarrow> real \<Rightarrow> (string \<times> string) list \<Rightarrow> error + real" where
  "total_elapsed_time_loop parse total_s [] = Inr total_s"
| "total_elapsed_time_loop parse total_s ((start_str, end_str) # rest) =
     (case parse start_str of
        None \<Rightarrow> Inl ParserError
      | Some start_time \<Rightarrow>
          (case parse end_str of
             None \<Rightarrow> Inl ParserError
           | Some end_time \<Rightarrow>
               total_elapsed_time_loop parse (total_s + total_seconds (end_time - start_time))
                 rest))"

definition total_elapsed_time ::
    "(string \<Rightarrow> datetime option) \<Rightarrow> (string \<times> string) list \<Rightarrow> error + real" where
  "total_elapsed_time parse time_tuples = total_elapsed_time_loop parse 0 time_tuples"

section \<open>Rendering\<close>

text \<open>
  \<open>Workout.__str__\<close>, inherited by both subclasses. \<open>str\<close> of a timedelta and the
  formatting of \<open>round(x, 1)\<close> belong to Python; they are parameters. \<open>' ' * n\<close> is the
  empty string when \<open>n\<close> is negative.
\<close>

definition spaces :: "int \<Rightarrow> string" where
  "spaces n = replicate (nat n) (CHR '' '')"

definition en_dash :: string where
  "en_dash = [CHR 0xE2, CHR 0x80, CHR 0x93]"

definition newline :: string where
  "newline = [CHR 0x0A]"

definition Workout_str ::
    "(point \<Rightarrow> point \<Rightarrow> real) \<Rightarrow> (timedelta \<Rightarrow> string) \<Rightarrow> (real \<Rightarrow> string) \<Rightarrow> obj \<Rightarrow>
       error + string" where
  "Workout_str gpsDistance str_timedelta str_round1 self =
     (let width = 16;
          duration_str = str_timedelta (get_duration (base self))
      in case get_calories gpsDistance self of
           Inl err \<Rightarrow> Inl err
         | Inr c \<Rightarrow>
             (let cal_str = str_round1 c
              in Inr (''|'' @ concat (replicate (nat width) en_dash) @ ''|'' @ newline
                   @ ''|'' @ spaces width @ ''|'' @ newline
                   @ ''| '' @ icon (base self) @ spaces (width - 3) @ ''|'' @ newline
                   @ ''| '' @ kind (base self)
                       @ spaces (width - int (length (kind (base self))) - 1) @ ''|'' @ newline
                   @ ''|'' @ spaces width @ ''|'' @ newline
                   @ ''| '' @ duration_str
                       @ spaces (width - int (length duration_str) - 1) @ ''|'' @ newline
                   @ ''| '' @ cal_str @ '' Calories ''
                       @ spaces (width - int (length cal_str) - 11) @ ''|'' @ newline
                   @ ''|'' @ spaces width @ ''|'' @ newline
                   @ ''|'' @ replicate (nat width) (CHR ''_'') @ ''|'' @ newline)))"

section \<open>Method calls\<close>

text \<open>
  Every public method of the three classes, as a call on an object: the result (or the
  exception) and the object after the call. A method a class does not have raises
  \<open>AttributeError\<close>.
\<close>

datatype meth =
    Get_calories
  | Get_duration
  | Get_start
  | Get_end
  | Set_calories "real option"
  | Set_start string
  | Set_end string
  | Get_kind
  | Dunder_eq obj
  | Dunder_str
  | Get_elev
  | Set_elev real
  | Get_pace

datatype val = NoneV | Num real | Time datetime | Delta timedelta | Str string | Bool bool

definition returning :: "('a \<Rightarrow> val) \<Rightarrow> error + 'a \<Rightarrow> error + val" where
  "returning f r = (case r of Inl err \<Rightarrow> Inl err | Inr v \<Rightarrow> Inr (f v))"

definition call ::
    "(string \<Rightarrow> datetime option) \<Rightarrow> (point \<Rightarrow> point \<Rightarrow> real) \<Rightarrow> (timedelta \<Rightarrow> string) \<Rightarrow>
       (real \<Rightarrow> string) \<Rightarrow> obj \<Rightarrow> meth \<Rightarrow> (error + val) \<times> obj" where
  "call parse gpsDistance str_timedelta str_round1 self m =
     (case m of
        Get_calories \<Rightarrow> (returning Num (get_calories gpsDistance self), self)
      | Get_duration \<Rightarrow> (Inr (Delta (get_duration (base self))), self)
      | Get_start \<Rightarrow> (Inr (Time (start (base self))), self)
      | Get_end \<Rightarrow> (Inr (Time (endt (base self))), self)
      | Set_calories cals \<Rightarrow>
          (returning (\<lambda>_. NoneV) (fst (set_calories self cals)), snd (set_calories self cals))
      | Set_start start_str \<Rightarrow>
          (returning (\<lambda>_. NoneV) (fst (set_start parse self start_str)),
           snd (set_start parse self start_str))
      | Set_end end_str \<Rightarrow>
          (returning (\<lambda>_. NoneV) (fst (set_end parse self end_str)),
           snd (set_end parse self end_str))
      | Get_kind \<Rightarrow> (Inr (Str (kind (base self))), self)
      | Dunder_eq other \<Rightarrow> (returning Bool (py_eq gpsDistance self other), self)
      | Dunder_str \<Rightarrow>
          (returning Str (Workout_str gpsDistance str_timedelta str_round1 self), self)
      | Get_elev \<Rightarrow> (returning Num (get_elev self), self)
      | Set_elev e \<Rightarrow> (returning (\<lambda>_. NoneV) (fst (set_elev self e)), snd (set_elev self e))
      | Get_pace \<Rightarrow> (returning Num (get_pace self), self))"

section \<open>A reader for the timestamps of the docstrings\<close>

text \<open>
  Modelled from the spec: TimeParsing (\<open>parser.parse\<close> of dateutil) is an external
  collaborator whose code is not part of the sources. The functions above take it as a
  parameter. For evaluation at concrete strings, \<open>parse_timestamp\<close> reads the one format
  the docstrings and the demo use, \<open>M/D/YYYY H:MM AM\<close> or \<open>PM\<close> with the month first,
  and returns the microseconds since the start of day 1 of year 1, counting days as
  \<open>datetime.toordinal\<close> does. It returns \<open>None\<close> on every other string, which says
  nothing about what dateutil does there.
\<close>

definition digit_of :: "char \<Rightarrow> int option" where
  "digit_of c =
     (if 48 \<le> (of_char c :: int) \<and> (of_char c :: int) \<le> 57
      then Some (of_char c - 48) else None)"

fun number_from :: "int \<Rightarrow> string \<Rightarrow> int option" where
  "number_from n [] = Some n"
| "number_from n (c # cs) =
     (case digit_of c of None \<Rightarrow> None | Some d \<Rightarrow> number_from (10 * n + d) cs)"

definition number :: "string \<Rightarrow> int option" where
  "number s = (if s = [] then None else number_from 0 s)"

fun split_on :: "char \<Rightarrow> string \<Rightarrow> string list" where
  "split_on sep [] = [[]]"
| "split_on sep (c # cs) =
     (if c = sep then [] # split_on sep cs
      else (case split_on sep cs of
              [] \<Rightarrow> [[c]]
            | x # xs \<Rightarrow> (c # x) # xs))"

definition is_leap :: "int \<Rightarrow> bool" where
  "is_leap y = (if y mod 400 = 0 then True else if y mod 100 = 0 then False else y mod 4 = 0)"

definition days_in_month :: "int \<Rightarrow> int \<Rightarrow> int" where
  "days_in_month y m =
     (if m = 2 then (if is_leap y then 29 else 28)
      else if m = 4 \<or> m = 6 \<or> m = 9 \<or> m = 11 then 30
      else 31)"

definition days_before_year :: "int \<Rightarrow> int" where
  "days_before_year y = (y - 1) * 365 + (y - 1) div 4 - (y - 1) div 100 + (y - 1) div 400"

definition days_before_month :: "int \<Rightarrow> int \<Rightarrow> int" where
  "days_before_month y m =
     [0, 31, 59, 90, 120, 151, 181, 212, 243, 273, 304, 334] ! nat (m - 1)
       + (if 2 < m \<and> is_leap y then 1 else 0)"

definition ymd2ord :: "int \<Rightarrow> int \<Rightarrow> int \<Rightarrow> int" where
  "ymd2ord y m d = days_before_year y + days_before_month y m + d"

definition hour24 :: "int \<Rightarrow> string \<Rightarrow> int option" where
  "hour24 h ampm =
     (if h < 1 \<or> 12 < h then None
      else if ampm = ''AM'' then Some (h mod 12)
      else if ampm = ''PM'' then Some (h mod 12 + 12)
      else None)"

definition microseconds_of :: "int \<Rightarrow> int \<Rightarrow> int \<Rightarrow> int \<Rightarrow> int \<Rightarrow> datetime" where
  "microseconds_of y m d hh mi =
     (((ymd2ord y m d * 24 + hh) * 60 + mi) * 60) * 1000000"

definition parse_timestamp :: "string \<Rightarrow> datetime option" where
  "parse_timestamp s =
     (case split_on (CHR '' '') s of
        [date_str, time_str, ampm] \<Rightarrow>
          (case (map number (split_on (CHR ''/'') date_str),
                 map number (split_on (CHR '':'') time_str)) of
             ([Some m, Some d, Some y], [Some h, Some mi]) \<Rightarrow>
               (if y < 1 \<or> 9999 < y \<or> m < 1 \<or> 12 < m \<or> d < 1 \<or> days_in_month y m < d
                   \<or> 59 < mi
                then None
                else (case hour24 h ampm of
                        None \<Rightarrow> None
                      | Some hh \<Rightarrow> Some (microseconds_of y m d hh mi)))
           | _ \<Rightarrow> None)
      | _ \<Rightarrow> None)"

section \<open>Definitions used to state and to evaluate the theorems\<close>

text \<open>
  Modelled from the spec: GeoDistance (\<open>gpsDistance\<close> of the helper module) is an external
  collaborator whose code is not part of the sources; the spec only says that it returns
  a distance in kilometres. Every theorem below holds for any distance function. Where
  an example needs a concrete one to be evaluated, \<open>grid_distance\<close> is used: the sum of
  the absolute differences of the coordinates. It is not the distance on the globe.
\<close>

definition grid_distance :: "point \<Rightarrow> point \<Rightarrow> real" where
  "grid_distance a b = \<bar>fst a - fst b\<bar> + \<bar>snd a - snd b\<bar>"

text \<open>
  \<open>duration_hours\<close> follows the words of the spec, "\<open>(end - start)\<close> expressed in hours";
  the code never names this quantity.
\<close>

definition duration_hours :: "workout \<Rightarrow> real" where
  "duration_hours w = total_seconds (get_duration w) / 3600"

section \<open>Auxiliary facts\<close>

lemma base_map_base: "base (map_base f x) = f (base x)"
  by (cases x) simp_all

lemma type_of_map_base: "type_of (map_base f x) = type_of x"
  by (cases x) simp_all

lemma elev_attr_map_base: "elev_attr (map_base f x) = elev_attr x"
  by (cases x) simp_all

lemma route_attr_map_base: "route_attr (map_base f x) = route_attr x"
  by (cases x) simp_all

lemma pace_attr_map_base: "pace_attr (map_base f x) = pace_attr x"
  by (cases x) simp_all

lemmas parse_defs = parse_timestamp_def number_def digit_of_def is_leap_def days_in_month_def
  days_before_year_def days_before_month_def ymd2ord_def hour24_def microseconds_of_def

text \<open>The loop adds up the distances between neighbours, starting from the first point.\<close>

lemma route_loop_sum:
  "route_loop gd d p ps = d + (\<Sum>i<length ps. gd ((p # ps) ! i) ((p # ps) ! Suc i))"
proof (induction ps arbitrary: d p)
  case Nil
  show ?case by simp
next
  case (Cons q qs)
  have "route_loop gd d p (q # qs) = route_loop gd (d + gd p q) q qs" by simp
  also have "\<dots> = d + gd p q + (\<Sum>i<length qs. gd ((q # qs) ! i) ((q # qs) ! Suc i))"
    by (rule Cons.IH)
  also have "\<dots> = d + (\<Sum>i<length (q # qs). gd ((p # q # qs) ! i) ((p # q # qs) ! Suc i))"
    by (simp add: sum.lessThan_Suc_shift del: sum.lessThan_Suc)
  finally show ?case .
qed

lemma run_route_calories:
  "RunWorkout_get_calories gd w (Some (p # ps)) =
     Inr ((\<Sum>i<length ps. gd ((p # ps) ! i) ((p # ps) ! Suc i)) * 100)"
  by (simp add: RunWorkout_get_calories_def RunWorkout_cals_per_km_def route_loop_sum)

section \<open>Calories of a single workout\<close>

text \<open>
  C1. The claim: a record with explicit calories \<open>c\<close> returns \<open>c\<close> from \<open>get_calories\<close>,
  except a RunWorkout whose route has at least two points; a RunWorkout with explicit
  calories and a route of fewer than two points still returns \<open>c\<close>. The code tests only
  whether the route is present: a one-point route with explicit calories 300 gives 0,
  not 300.
\<close>

theorem C1_counterexample:
  "get_calories grid_distance
     (RunWorkout \<lparr>start = 0, endt = 3600000000, icon = RunWorkout_icon, kind = ''Running'',
        calories = Some 300\<rparr> 0 (Some [(42.3601, -71.0589)])) \<noteq> Inr 300"
  by (simp add: RunWorkout_get_calories_def)

text \<open>
  C1, as amended. A record with explicit calories \<open>c\<close> returns \<open>c\<close> when it is a Workout,
  a SwimWorkout, or a RunWorkout without a route; a RunWorkout whose route is present
  with at least one point returns the summed distances between neighbouring points times
  100 (0 for a single point), whatever \<open>c\<close> is.
\<close>

theorem C1_explicit_calories:
  "calories w = Some c \<Longrightarrow>
     get_calories gd (Workout w) = Inr c
     \<and> get_calories gd (SwimWorkout w pace) = Inr c
     \<and> get_calories gd (RunWorkout w e None) = Inr c
     \<and> get_calories gd (RunWorkout w e (Some (p # ps))) =
         Inr ((\<Sum>i<length ps. gd ((p # ps) ! i) ((p # ps) ! Suc i)) * 100)"
  by (simp add: run_route_calories Workout_get_calories_def SwimWorkout_get_calories_def)
    (simp add: RunWorkout_get_calories_def Workout_get_calories_def)

theorem C1_explicit_calories_witness:
  "get_calories grid_distance
     (Workout \<lparr>start = 0, endt = 1500000000, icon = Workout_icon, kind = ''Workout'',
        calories = Some 300\<rparr>) = Inr 300
   \<and> get_calories grid_distance
     (RunWorkout \<lparr>start = 0, endt = 1500000000, icon = Workout_icon, kind = ''Workout'',
        calories = Some 300\<rparr> 100 (Some [(0, 0), (3, 4)])) = Inr 700"
  using C1_explicit_calories [of
      "\<lparr>start = 0, endt = 1500000000, icon = Workout_icon, kind = ''Workout'',
        calories = Some 300\<rparr>" 300 grid_distance 0 100 "(0, 0)" "[(3, 4)]"]
  by (simp add: grid_distance_def)

text \<open>
  C2. A RunWorkout whose route is present with at least two points returns the sum of
  \<open>gpsDistance\<close> over the consecutive pairs, from index 0, times 100; for the route of
  the demo that is the distance between its two points times 100.
\<close>

theorem C2_route_calories:
  "(2 \<le> length pts \<longrightarrow>
      get_calories gd (RunWorkout w e (Some pts)) =
        Inr ((\<Sum>i<length pts - 1. gd (pts ! i) (pts ! Suc i)) * 100))
   \<and> get_calories gd (RunWorkout w e (Some [(42.3601, -71.0589), (42.3370, -71.2092)])) =
        Inr (gd (42.3601, -71.0589) (42.3370, -71.2092) * 100)"
proof (intro conjI impI)
  assume len: "2 \<le> length pts"
  then obtain p ps where pts: "pts = p # ps" by (cases pts) auto
  show "get_calories gd (RunWorkout w e (Some pts)) =
        Inr ((\<Sum>i<length pts - 1. gd (pts ! i) (pts ! Suc i)) * 100)"
    unfolding pts by (simp add: run_route_calories)
next
  show "get_calories gd (RunWorkout w e (Some [(42.3601, -71.0589), (42.3370, -71.2092)])) =
        Inr (gd (42.3601, -71.0589) (42.3370, -71.2092) * 100)"
    by (simp add: run_route_calories)
qed

theorem C2_route_calories_witness:
  "get_calories grid_distance
     (RunWorkout \<lparr>start = 0, endt = 3600000000, icon = RunWorkout_icon, kind = ''Running'',
        calories = None\<rparr> 100 (Some [(0, 0), (3, 0), (3, 4)])) = Inr 700"
  using C2_route_calories [of "[(0, 0), (3, 0), (3, 4)]" grid_distance
      "\<lparr>start = 0, endt = 3600000000, icon = RunWorkout_icon, kind = ''Running'',
        calories = None\<rparr>" 100]
  by (simp add: grid_distance_def numeral_2_eq_2 lessThan_Suc)

text \<open>
  C3. The claim: a RunWorkout whose route is present with fewer than two points
  returns 0 calories without raising. The code does so for a one-point route; on the
  empty route it raises IndexError when it reads element 0.
\<close>

theorem C3_short_route:
  "get_calories gpsDistance (RunWorkout w e (Some [])) = Inl IndexError
   \<and> get_calories gpsDistance (RunWorkout w e (Some [p])) = Inr 0"
  by (simp add: RunWorkout_get_calories_def)

text \<open>
  C5. A base Workout without explicit calories returns 200 times the duration in hours
  (negative when the end precedes the start), and a RunWorkout with neither a route nor
  explicit calories returns what the base computation returns, at the base rate 200.
\<close>

theorem C5_base_rate:
  "calories w = None \<Longrightarrow>
     get_calories gd (Workout w) = Inr (200 * duration_hours w)
     \<and> get_calories gd (RunWorkout w e None) = Inr (Workout_cal_per_hr * duration_hours w)
     \<and> get_calories gd (RunWorkout w e None) = get_calories gd (Workout w)"
  by (simp add: Workout_get_calories_def RunWorkout_get_calories_def duration_hours_def
      get_duration_def Workout_cal_per_hr_def)

theorem C5_base_rate_witness:
  "get_calories grid_distance
     (Workout \<lparr>start = 0, endt = 1800000000, icon = Workout_icon, kind = ''Workout'',
        calories = None\<rparr>) = Inr 100
   \<and> get_calories grid_distance
     (RunWorkout \<lparr>start = 3600000000, endt = 0, icon = RunWorkout_icon, kind = ''Running'',
        calories = None\<rparr> 200 None) = Inr (- 200)"
  using C5_base_rate [of
      "\<lparr>start = 0, endt = 1800000000, icon = Workout_icon, kind = ''Workout'',
        calories = None\<rparr>" grid_distance 0]
    C5_base_rate [of
      "\<lparr>start = 3600000000, endt = 0, icon = RunWorkout_icon, kind = ''Running'',
        calories = None\<rparr>" grid_distance 200]
  by (simp add: duration_hours_def get_duration_def total_seconds_def Workout_cal_per_hr_def)

text \<open>
  C6. A SwimWorkout without explicit calories returns 400 times the duration in hours,
  the rate of its own class and twice the base rate; the pace changes neither the
  calories nor the outcome of comparing two SwimWorkouts.
\<close>

theorem C6_swim_rate:
  "(calories w = None \<longrightarrow> get_calories gd (SwimWorkout w pace) = Inr (400 * duration_hours w))
   \<and> SwimWorkout_cal_per_hr = 2 * Workout_cal_per_hr
   \<and> get_calories gd (SwimWorkout w pace) = get_calories gd (SwimWorkout w pace')
   \<and> py_eq gd (SwimWorkout w pace) (SwimWorkout w' pace') =
       py_eq gd (SwimWorkout w pace2) (SwimWorkout w' pace2')"
  by (simp add: SwimWorkout_get_calories_def duration_hours_def get_duration_def
      SwimWorkout_cal_per_hr_def Workout_cal_per_hr_def Workout_eq_def)

theorem C6_swim_rate_witness:
  "get_calories grid_distance
     (SwimWorkout \<lparr>start = 0, endt = 1800000000, icon = SwimWorkout_icon, kind = ''Swimming'',
        calories = None\<rparr> (5 / 2)) = Inr 200"
  using C6_swim_rate [of
      "\<lparr>start = 0, endt = 1800000000, icon = SwimWorkout_icon, kind = ''Swimming'',
        calories = None\<rparr>" grid_distance "5 / 2"]
  by (simp add: duration_hours_def get_duration_def total_seconds_def)

section \<open>Equality of records\<close>






section \<open>Totals over collections\<close>

lemma total_calories_loop_sum:
  "map (get_calories gd) ws = map Inr cs \<Longrightarrow>
     total_calories_loop gd acc ws = Inr (acc + sum_list cs)"
proof (induction ws arbitrary: acc cs)
  case Nil
  then show ?case by simp
next
  case (Cons w ws)
  from Cons.prems obtain c cs' where cs: "cs = c # cs'" by (cases cs) auto
  from Cons.prems have hd: "get_calories gd w = Inr c"
    and tl: "map (get_calories gd) ws = map Inr cs'"
    unfolding cs by simp_all
  show ?case
    unfolding cs by (simp add: hd Cons.IH [OF tl] add.assoc)
qed

text \<open>
  C7. \<open>total_calories\<close> is the sum of \<open>get_calories\<close> over the elements, each dispatched
  on its class: 0 on the empty list, the sum of the returned values when every call
  returns, and on \<open>[w1, w2]\<close> what evaluating \<open>w1.get_calories() + w2.get_calories()\<close>
  gives, an exception included.
\<close>

theorem C7_total_calories:
  "total_calories gd [] = Inr 0
   \<and> total_calories gd [w1, w2] =
       (case get_calories gd w1 of
          Inl err \<Rightarrow> Inl err
        | Inr a \<Rightarrow> (case get_calories gd w2 of Inl err \<Rightarrow> Inl err | Inr b \<Rightarrow> Inr (a + b)))
   \<and> (map (get_calories gd) ws = map Inr cs \<longrightarrow> total_calories gd ws = Inr (sum_list cs))"
proof (intro conjI impI)
  show "total_calories gd [] = Inr 0"
    by (simp add: total_calories_def)
next
  show "total_calories gd [w1, w2] =
       (case get_calories gd w1 of
          Inl err \<Rightarrow> Inl err
        | Inr a \<Rightarrow> (case get_calories gd w2 of Inl err \<Rightarrow> Inl err | Inr b \<Rightarrow> Inr (a + b)))"
    by (simp add: total_calories_def split: sum.splits)
next
  assume "map (get_calories gd) ws = map Inr cs"
  then show "total_calories gd ws = Inr (sum_list cs)"
    by (simp add: total_calories_def total_calories_loop_sum)
qed

text \<open>The four workouts of the demo, by their parsed times: 100 + 300 + 200 + 146.67.\<close>

theorem C7_total_calories_witness:
  "total_calories grid_distance
     [Workout \<lparr>start = 0, endt = 1800000000, icon = Workout_icon, kind = ''Workout'',
        calories = None\<rparr>,
      Workout \<lparr>start = 300000000, endt = 1800000000, icon = Workout_icon, kind = ''Workout'',
        calories = Some 300\<rparr>,
      RunWorkout \<lparr>start = 0, endt = 3600000000, icon = RunWorkout_icon, kind = ''Running'',
        calories = None\<rparr> 200 None,
      SwimWorkout \<lparr>start = 0, endt = 1320000000, icon = SwimWorkout_icon,
        kind = ''Swimming'', calories = None\<rparr> (5 / 2)]
   = Inr (100 + 300 + 200 + 440 / 3)"
  using C7_total_calories [of grid_distance _ _
     "[Workout \<lparr>start = 0, endt = 1800000000, icon = Workout_icon, kind = ''Workout'',
        calories = None\<rparr>,
      Workout \<lparr>start = 300000000, endt = 1800000000, icon = Workout_icon, kind = ''Workout'',
        calories = Some 300\<rparr>,
      RunWorkout \<lparr>start = 0, endt = 3600000000, icon = RunWorkout_icon, kind = ''Running'',
        calories = None\<rparr> 200 None,
      SwimWorkout \<lparr>start = 0, endt = 1320000000, icon = SwimWorkout_icon,
        kind = ''Swimming'', calories = None\<rparr> (5 / 2)]"
     "[100, 300, 200, 440 / 3]"]
  by (simp add: Workout_get_calories_def RunWorkout_get_calories_def
      SwimWorkout_get_calories_def Workout_cal_per_hr_def SwimWorkout_cal_per_hr_def
      total_seconds_def)

lemma total_elapsed_time_loop_sum:
  "map (\<lambda>(s, e). (parse s, parse e)) tt = map (\<lambda>(a, b). (Some a, Some b)) ts \<Longrightarrow>
     total_elapsed_time_loop parse t tt =
       Inr (t + sum_list (map (\<lambda>(a, b). total_seconds (b - a)) ts))"
proof (induction tt arbitrary: t ts)
  case Nil
  then show ?case by simp
next
  case (Cons x tt)
  obtain s e where x: "x = (s, e)" by (cases x)
  from Cons.prems obtain y ts' where ts: "ts = y # ts'" by (cases ts) auto
  obtain a b where y: "y = (a, b)" by (cases y)
  from Cons.prems have hd: "parse s = Some a" "parse e = Some b"
    and tl: "map (\<lambda>(s, e). (parse s, parse e)) tt = map (\<lambda>(a, b). (Some a, Some b)) ts'"
    unfolding x ts y by simp_all
  show ?case
    unfolding x ts y by (simp add: hd Cons.IH [OF tl] add.assoc)
qed

text \<open>
  C8. \<open>total_elapsed_time\<close> parses both strings of every pair and returns the sum of
  \<open>end - start\<close> in seconds: 0 on the empty list, the sum over the parsed pairs when
  every string parses, and 900 seconds on the two pairs of the demo.
\<close>

theorem C8_total_elapsed_time:
  "total_elapsed_time parse [] = Inr 0
   \<and> (map (\<lambda>(s, e). (parse s, parse e)) tt = map (\<lambda>(a, b). (Some a, Some b)) ts \<longrightarrow>
        total_elapsed_time parse tt = Inr (sum_list (map (\<lambda>(a, b). total_seconds (b - a)) ts)))
   \<and> total_elapsed_time parse_timestamp
        [(''1/1/2021 2:00 PM'', ''1/1/2021 2:05 PM''),
         (''3/12/2021 1:22 PM'', ''3/12/2021 1:32 PM'')] = Inr 900"
proof (intro conjI impI)
  show "total_elapsed_time parse [] = Inr 0"
    by (simp add: total_elapsed_time_def)
next
  assume "map (\<lambda>(s, e). (parse s, parse e)) tt = map (\<lambda>(a, b). (Some a, Some b)) ts"
  then show "total_elapsed_time parse tt =
      Inr (sum_list (map (\<lambda>(a, b). total_seconds (b - a)) ts))"
    by (simp add: total_elapsed_time_def total_elapsed_time_loop_sum)
next
  show "total_elapsed_time parse_timestamp
        [(''1/1/2021 2:00 PM'', ''1/1/2021 2:05 PM''),
         (''3/12/2021 1:22 PM'', ''3/12/2021 1:32 PM'')] = Inr 900"
    by (simp add: total_elapsed_time_def total_seconds_def parse_defs)
qed

theorem C8_total_elapsed_time_witness:
  "total_elapsed_time parse_timestamp
     [(''9/30/2021 1:35 PM'', ''9/30/2021 3:57 PM''), (''1/1/2021 3:30 PM'', ''1/1/2021 4:00 PM'')]
   = Inr 10320"
proof -
  have "map (\<lambda>(s, e). (parse_timestamp s, parse_timestamp e))
          [(''9/30/2021 1:35 PM'', ''9/30/2021 3:57 PM''),
           (''1/1/2021 3:30 PM'', ''1/1/2021 4:00 PM'')]
        = map (\<lambda>(a, b). (Some a, Some b))
            [(63768692100000000, 63768700620000000), (63745198200000000, 63745200000000000)]"
    by (simp add: parse_defs)
  with C8_total_elapsed_time [of parse_timestamp
      "[(''9/30/2021 1:35 PM'', ''9/30/2021 3:57 PM''), (''1/1/2021 3:30 PM'', ''1/1/2021 4:00 PM'')]"
      "[(63768692100000000, 63768700620000000), (63745198200000000, 63745200000000000)]"]
  show ?thesis by (simp add: total_seconds_def)
qed

section \<open>What the methods change\<close>

lemma Workout_init_fields:
  "Workout_init parse s e c = Inr w \<Longrightarrow>
     kind w = ''Workout'' \<and> icon w = Workout_icon \<and> calories w = c"
  by (auto simp: Workout_init_def split: option.splits)

lemma call_base:
  "kind (base (snd (call parse gd st sr self m))) = kind (base self)
   \<and> icon (base (snd (call parse gd st sr self m))) = icon (base self)
   \<and> type_of (snd (call parse gd st sr self m)) = type_of self"
proof (cases m)
  case (Set_elev e)
  then show ?thesis by (cases self) (simp_all add: call_def)
qed (simp_all add: call_def set_calories_def set_start_def set_end_def base_map_base
    type_of_map_base split: option.splits)

text \<open>
  C9. When both strings parse, each constructor returns a record of its class whose kind
  and icon are the constants of that class (\<open>Workout\<close>, \<open>Running\<close>, \<open>Swimming\<close>, with
  the matching icon); whatever record a constructor returns has them; and no method call
  changes the kind, the icon or the class of a record: the getters, \<open>set_calories\<close>,
  \<open>set_start\<close>, \<open>set_end\<close>, \<open>set_elev\<close>, \<open>__eq__\<close> and \<open>__str__\<close>, whether the call
  returns or raises.
\<close>

theorem C9_kind_icon:
  "(parse s = Some a \<and> parse e = Some b \<longrightarrow>
      new_Workout parse s e c =
        Inr (Workout \<lparr>start = a, endt = b, icon = Workout_icon, kind = ''Workout'',
               calories = c\<rparr>)
      \<and> new_RunWorkout parse s e el c r =
        Inr (RunWorkout \<lparr>start = a, endt = b, icon = RunWorkout_icon, kind = ''Running'',
               calories = c\<rparr> el r)
      \<and> new_SwimWorkout parse s e p c =
        Inr (SwimWorkout \<lparr>start = a, endt = b, icon = SwimWorkout_icon, kind = ''Swimming'',
               calories = c\<rparr> p))
   \<and> (new_Workout parse s e c = Inr x \<longrightarrow>
      type_of x = WorkoutT \<and> kind (base x) = ''Workout'' \<and> icon (base x) = Workout_icon)
   \<and> (new_RunWorkout parse s e el c r = Inr y \<longrightarrow>
      type_of y = RunWorkoutT \<and> kind (base y) = ''Running'' \<and> icon (base y) = RunWorkout_icon)
   \<and> (new_SwimWorkout parse s e p c = Inr z \<longrightarrow>
      type_of z = SwimWorkoutT \<and> kind (base z) = ''Swimming''
      \<and> icon (base z) = SwimWorkout_icon)
   \<and> kind (base (snd (call parse gd st sr self m))) = kind (base self)
   \<and> icon (base (snd (call parse gd st sr self m))) = icon (base self)
   \<and> type_of (snd (call parse gd st sr self m)) = type_of self"
proof -
  have "parse s = Some a \<and> parse e = Some b \<longrightarrow>
      new_Workout parse s e c =
        Inr (Workout \<lparr>start = a, endt = b, icon = Workout_icon, kind = ''Workout'',
               calories = c\<rparr>)
      \<and> new_RunWorkout parse s e el c r =
        Inr (RunWorkout \<lparr>start = a, endt = b, icon = RunWorkout_icon, kind = ''Running'',
               calories = c\<rparr> el r)
      \<and> new_SwimWorkout parse s e p c =
        Inr (SwimWorkout \<lparr>start = a, endt = b, icon = SwimWorkout_icon, kind = ''Swimming'',
               calories = c\<rparr> p)"
    by (simp add: new_Workout_def new_RunWorkout_def new_SwimWorkout_def Workout_init_def)
  moreover have "new_Workout parse s e c = Inr x \<longrightarrow>
      type_of x = WorkoutT \<and> kind (base x) = ''Workout'' \<and> icon (base x) = Workout_icon"
    by (auto simp: new_Workout_def split: sum.splits dest: Workout_init_fields)
  moreover have "new_RunWorkout parse s e el c r = Inr y \<longrightarrow>
      type_of y = RunWorkoutT \<and> kind (base y) = ''Running'' \<and> icon (base y) = RunWorkout_icon"
    by (auto simp: new_RunWorkout_def split: sum.splits)
  moreover have "new_SwimWorkout parse s e p c = Inr z \<longrightarrow>
      type_of z = SwimWorkoutT \<and> kind (base z) = ''Swimming''
      \<and> icon (base z) = SwimWorkout_icon"
    by (auto simp: new_SwimWorkout_def split: sum.splits)
  ultimately show ?thesis
    using call_base [of parse gd st sr self m] by blast
qed

text \<open>
  The three constructors on the strings of the demo: each returns, with the kind and the
  icon of its class, and a later \<open>set_calories\<close> leaves both as they are.
\<close>

theorem C9_kind_icon_witness:
  "new_Workout parse_timestamp ''1/1/2021 2:00 PM'' ''1/1/2021 2:05 PM'' (Some 300)
     = Inr (Workout \<lparr>start = 63745192800000000, endt = 63745193100000000,
         icon = Workout_icon, kind = ''Workout'', calories = Some 300\<rparr>)
   \<and> new_RunWorkout parse_timestamp ''1/1/2021 2:00 PM'' ''1/1/2021 2:05 PM'' 200 (Some 300)
        None
     = Inr (RunWorkout \<lparr>start = 63745192800000000, endt = 63745193100000000,
         icon = RunWorkout_icon, kind = ''Running'', calories = Some 300\<rparr> 200 None)
   \<and> new_SwimWorkout parse_timestamp ''1/1/2021 2:00 PM'' ''1/1/2021 2:05 PM'' (5 / 2)
        (Some 300)
     = Inr (SwimWorkout \<lparr>start = 63745192800000000, endt = 63745193100000000,
         icon = SwimWorkout_icon, kind = ''Swimming'', calories = Some 300\<rparr> (5 / 2))
   \<and> kind (base (snd (call parse_timestamp grid_distance (\<lambda>d. []) (\<lambda>x. [])
        (SwimWorkout \<lparr>start = 63745192800000000, endt = 63745193100000000,
           icon = SwimWorkout_icon, kind = ''Swimming'', calories = Some 300\<rparr> (5 / 2))
        (Set_calories None)))) = ''Swimming''"
proof -
  have ps: "parse_timestamp ''1/1/2021 2:00 PM'' = Some 63745192800000000"
    by (simp add: parse_defs)
  have pe: "parse_timestamp ''1/1/2021 2:05 PM'' = Some 63745193100000000"
    by (simp add: parse_defs)
  show ?thesis
    using ps pe
      C9_kind_icon [of parse_timestamp "''1/1/2021 2:00 PM''" 63745192800000000
        "''1/1/2021 2:05 PM''" 63745193100000000 "Some 300" 200 None "5 / 2" _ _ _
        grid_distance "\<lambda>d. []" "\<lambda>x. []"
        "SwimWorkout \<lparr>start = 63745192800000000, endt = 63745193100000000,
           icon = SwimWorkout_icon, kind = ''Swimming'', calories = Some 300\<rparr> (5 / 2)"
        "Set_calories None"]
    by simp
qed

text \<open>
  C10. \<open>set_start\<close> with a string that does not parse raises the parser's error and
  leaves the record as it was; with a string that parses it returns and changes the
  start only. The same holds for \<open>set_end\<close> and the end. \<open>set_calories\<close> always returns
  and changes the calories only.
\<close>

theorem C10_setters:
  "(parse s = None \<longrightarrow>
      set_start parse self s = (Inl ParserError, self)
      \<and> set_end parse self s = (Inl ParserError, self))
   \<and> (parse s = Some t \<longrightarrow>
      fst (set_start parse self s) = Inr ()
      \<and> base (snd (set_start parse self s)) = (base self)\<lparr>start := t\<rparr>
      \<and> type_of (snd (set_start parse self s)) = type_of self
      \<and> elev_attr (snd (set_start parse self s)) = elev_attr self
      \<and> route_attr (snd (set_start parse self s)) = route_attr self
      \<and> pace_attr (snd (set_start parse self s)) = pace_attr self
      \<and> fst (set_end parse self s) = Inr ()
      \<and> base (snd (set_end parse self s)) = (base self)\<lparr>endt := t\<rparr>
      \<and> type_of (snd (set_end parse self s)) = type_of self
      \<and> elev_attr (snd (set_end parse self s)) = elev_attr self
      \<and> route_attr (snd (set_end parse self s)) = route_attr self
      \<and> pace_attr (snd (set_end parse self s)) = pace_attr self)
   \<and> fst (set_calories self c) = Inr ()
   \<and> base (snd (set_calories self c)) = (base self)\<lparr>calories := c\<rparr>
   \<and> type_of (snd (set_calories self c)) = type_of self
   \<and> elev_attr (snd (set_calories self c)) = elev_attr self
   \<and> route_attr (snd (set_calories self c)) = route_attr self
   \<and> pace_attr (snd (set_calories self c)) = pace_attr self"
  by (simp add: set_start_def set_end_def set_calories_def base_map_base type_of_map_base
      elev_attr_map_base route_attr_map_base pace_attr_map_base)

theorem C10_setters_witness:
  "set_start parse_timestamp
     (RunWorkout \<lparr>start = 63745192800000000, endt = 63745193100000000, icon = RunWorkout_icon,
        kind = ''Running'', calories = None\<rparr> 200 None) ''not a time''
   = (Inl ParserError,
      RunWorkout \<lparr>start = 63745192800000000, endt = 63745193100000000, icon = RunWorkout_icon,
        kind = ''Running'', calories = None\<rparr> 200 None)
   \<and> base (snd (set_end parse_timestamp
        (RunWorkout \<lparr>start = 63745192800000000, endt = 63745193100000000,
           icon = RunWorkout_icon, kind = ''Running'', calories = None\<rparr> 200 None)
        ''1/1/2021 3:30 PM''))
     = \<lparr>start = 63745192800000000, endt = 63745198200000000, icon = RunWorkout_icon,
        kind = ''Running'', calories = None\<rparr>"
proof -
  have n: "parse_timestamp ''not a time'' = None"
    by (simp add: parse_defs)
  have p: "parse_timestamp ''1/1/2021 3:30 PM'' = Some 63745198200000000"
    by (simp add: parse_defs)
  show ?thesis
    using C10_setters [of parse_timestamp "''not a time''"
        "RunWorkout \<lparr>start = 63745192800000000, endt = 63745193100000000,
           icon = RunWorkout_icon, kind = ''Running'', calories = None\<rparr> 200 None"
        "63745198200000000" None]
      C10_setters [of parse_timestamp "''1/1/2021 3:30 PM''"
        "RunWorkout \<lparr>start = 63745192800000000, endt = 63745193100000000,
           icon = RunWorkout_icon, kind = ''Running'', calories = None\<rparr> 200 None"
        "63745198200000000" None]
    by (simp add: n p)
qed

end
